theory Spec2Isabelle
  imports Complex_Main "HOL-Library.Char_ord" "HOL-Library.List_Lexorder"
begin

section \<open>Data model of flask\_app.py\<close>

text \<open>
  The program polls two GTFS-realtime feeds, joins them with pandas and caches the
  result in the module-level dictionary \<open>CACHE\<close>. A DataFrame is modelled as the list
  of its rows; the frame \<open>pd.DataFrame([])\<close> built from no rows has no columns, which
  is where \<open>merge\<close> raises \<open>KeyError\<close>. Python floats are modelled by the real numbers
  they denote (comparisons of floats are exact; NaN is not modelled). Strings are
  compared as Python compares them, lexicographically by character code.
\<close>

text \<open>The exceptions that leave \<open>get_live_bus_data\<close>. \<open>OverflowError\<close> stands for what
  \<open>datetime.fromtimestamp\<close> raises on an instant outside its range (\<open>OverflowError\<close>,
  \<open>ValueError\<close> or \<open>OSError\<close>, by magnitude and platform).\<close>

datatype error = DecodeError | KeyError | OverflowError

text \<open>The fields of a decoded \<open>VehiclePosition\<close>, \<open>TripUpdate\<close> and \<open>FeedEntity\<close> that
  the program reads. An unset optional message field is \<open>None\<close> (\<open>HasField\<close> is false);
  a stop-time update is represented by its \<open>arrival.delay\<close>.\<close>

record vehicle_position =
  vp_trip_id :: string
  vp_route_id :: string
  vp_label :: string
  vp_latitude :: real
  vp_longitude :: real
  vp_current_stop_sequence :: nat
  vp_stop_id :: string
  vp_current_status :: nat
  vp_timestamp :: "nat option"

record trip_update =
  tu_trip_id :: string
  tu_stop_time_update :: "int list"

record feed_entity =
  vehicle :: "vehicle_position option"
  trip_update :: "trip_update option"

type_synonym feed_message = "feed_entity list"

text \<open>The bytes of a response body, seen through the two things the program does with
  them: their truth value (\<open>b''\<close> is false) and \<open>FeedMessage.ParseFromString\<close>, which
  either raises \<open>DecodeError\<close> or fills the message.\<close>

datatype content = Empty | Malformed | Wire feed_message

text \<open>What \<open>requests.get\<close> followed by \<open>raise_for_status\<close> does for a URL: it raises a
  \<open>RequestException\<close> (transport error, timeout, HTTP error status) or yields a body.\<close>

datatype http_outcome = RequestException | Response content

type_synonym datetime = int  \<comment> \<open>an instant, in microseconds\<close>

record vehicle_row =
  trip_id :: string
  route_id :: string
  vehicle_id :: string
  lat :: real
  lon :: real
  stop_sequence :: nat
  stop_id :: string
  current_status :: nat
  timestamp :: "nat option"  \<comment> \<open>\<open>None\<close> is the text N/A, \<open>Some t\<close> the formatted instant \<open>t\<close>\<close>

record update_row =
  u_trip_id :: string
  u_delay :: int
  u_status :: string

record row = vehicle_row +
  delay :: int
  status :: string
  route_name :: string
  region :: string

record cache =
  data :: "row list"
  last_refreshed :: "datetime option"
  previous_data :: "row list"

text \<open>The process state: the cache and the log of the URLs requested so far.\<close>

record state =
  CACHE :: cache
  requested :: "string list"

datatype 'a result = Raised error | Returned 'a

section \<open>Fetching and decoding\<close>

definition VEHICLE_POSITIONS_URL :: string where
  "VEHICLE_POSITIONS_URL = ''https://gtfsrt.api.translink.com.au/api/realtime/SEQ/VehiclePositions/Bus''"

definition TRIP_UPDATES_URL :: string where
  "TRIP_UPDATES_URL = ''https://gtfsrt.api.translink.com.au/api/realtime/SEQ/TripUpdates/Bus''"

definition REFRESH_INTERVAL_SECONDS :: real where
  "REFRESH_INTERVAL_SECONDS = 60"

definition initial_cache :: cache where
  "initial_cache = \<lparr>data = [], last_refreshed = None, previous_data = []\<rparr>"

definition total_seconds :: "int \<Rightarrow> real" where
  "total_seconds d = real_of_int d / 1000000"

definition fetch_gtfs_rt :: "(string \<Rightarrow> http_outcome) \<Rightarrow> string \<Rightarrow> state \<Rightarrow> content option \<times> state" where
  "fetch_gtfs_rt net url s =
     (case net url of
        Response c \<Rightarrow> (Some c, s\<lparr>requested := requested s @ [url]\<rparr>)
      | RequestException \<Rightarrow> (None, s\<lparr>requested := requested s @ [url]\<rparr>))"

text \<open>Python's \<open>not content\<close> for a value that is \<open>None\<close> or bytes.\<close>

fun falsy :: "content option \<Rightarrow> bool" where
  "falsy None = True"
| "falsy (Some Empty) = True"
| "falsy (Some _) = False"

text \<open>\<open>ParseFromString\<close> raises \<open>DecodeError\<close> on bytes that are not a message and reads
  zero bytes as the message with no entity.\<close>

fun ParseFromString :: "content \<Rightarrow> error + feed_message" where
  "ParseFromString (Wire m) = Inr m"
| "ParseFromString Empty = Inr []"
| "ParseFromString Malformed = Inl DecodeError"

text \<open>\<open>datetime.fromtimestamp(t, BRISBANE_TZ)\<close> of line 50, for the unsigned \<open>t\<close> of the
  feed. Brisbane is ten hours ahead of UTC, and the call yields a datetime as long as
  the local time is at most 9999-12-31 23:59:59, that is \<open>t + 36000 \<le> 253402300799\<close>;
  beyond that it raises. The text \<open>strftime\<close> makes of the datetime is not modelled: the
  column holds the instant.\<close>

definition MAX_TIMESTAMP :: nat where
  "MAX_TIMESTAMP = 253402264799"

definition fromtimestamp :: "nat \<Rightarrow> error + nat" where
  "fromtimestamp t = (if t \<le> MAX_TIMESTAMP then Inr t else Inl OverflowError)"

text \<open>The timestamp entry of the dictionary: the formatted instant when the field is set,
  the text N/A otherwise.\<close>

definition timestamp_text :: "nat option \<Rightarrow> error + nat option" where
  "timestamp_text ts =
     (case ts of
        None \<Rightarrow> Inr None
      | Some t \<Rightarrow> (case fromtimestamp t of Inl e \<Rightarrow> Inl e | Inr x \<Rightarrow> Inr (Some x)))"

text \<open>One dictionary of the list comprehension of \<open>parse_vehicle_positions\<close>.\<close>

definition vehicle_of :: "vehicle_position \<Rightarrow> error + vehicle_row" where
  "vehicle_of v =
     (case timestamp_text (vp_timestamp v) of
        Inl e \<Rightarrow> Inl e
      | Inr ts \<Rightarrow>
          Inr \<lparr>trip_id = vp_trip_id v, route_id = vp_route_id v, vehicle_id = vp_label v,
               lat = vp_latitude v, lon = vp_longitude v,
               stop_sequence = vp_current_stop_sequence v, stop_id = vp_stop_id v,
               current_status = vp_current_status v, timestamp = ts\<rparr>)"

text \<open>The list comprehension of lines 45 to 52: one dictionary per entity that has a
  vehicle, in order; the first timestamp out of range ends it with the error.\<close>

fun vehicles_of :: "feed_message \<Rightarrow> error + vehicle_row list" where
  "vehicles_of [] = Inr []"
| "vehicles_of (entity # feed) =
     (case vehicle entity of
        None \<Rightarrow> vehicles_of feed
      | Some v \<Rightarrow>
          (case vehicle_of v of
             Inl e \<Rightarrow> Inl e
           | Inr r \<Rightarrow> (case vehicles_of feed of Inl e \<Rightarrow> Inl e | Inr rs \<Rightarrow> Inr (r # rs))))"

definition parse_vehicle_positions :: "content \<Rightarrow> error + vehicle_row list" where
  "parse_vehicle_positions c =
     (case ParseFromString c of
        Inl e \<Rightarrow> Inl e
      | Inr feed \<Rightarrow> vehicles_of feed)"

definition classify :: "int \<Rightarrow> string" where
  "classify d = (if d > 300 then ''Delayed'' else (if d < - 60 then ''Early'' else ''On Time''))"

fun updates_of :: "feed_message \<Rightarrow> update_row list" where
  "updates_of [] = []"
| "updates_of (entity # feed) =
     (case trip_update entity of
        None \<Rightarrow> updates_of feed
      | Some tu \<Rightarrow>
          (case tu_stop_time_update tu of
             [] \<Rightarrow> updates_of feed
           | d # _ \<Rightarrow> \<lparr>u_trip_id = tu_trip_id tu, u_delay = d, u_status = classify d\<rparr> # updates_of feed))"

definition parse_trip_updates :: "content \<Rightarrow> error + update_row list" where
  "parse_trip_updates c =
     (case ParseFromString c of
        Inl e \<Rightarrow> Inl e
      | Inr feed \<Rightarrow> Inr (updates_of feed))"

section \<open>Merging and the cache\<close>

text \<open>\<open>left.merge(right, on=key, how="left")\<close> for frames that both have the key column:
  the rows of the left frame in order, each once per matching right row and once,
  with missing right columns, when nothing matches.\<close>

definition left_merge :: "('a \<Rightarrow> 'k) \<Rightarrow> ('b \<Rightarrow> 'k) \<Rightarrow> 'a list \<Rightarrow> 'b list \<Rightarrow> ('a \<times> 'b option) list" where
  "left_merge kl kr left right =
     concat (map (\<lambda>l. let ms = filter (\<lambda>r. kr r = kl l) right
                      in if ms = [] then [(l, None)] else map (\<lambda>r. (l, Some r)) ms) left)"

definition categorize_region :: "real \<Rightarrow> string" where
  "categorize_region lt =
     (if - 27.75 \<le> lt \<and> lt \<le> - 27.0 then ''Brisbane''
      else if - 28.2 \<le> lt \<and> lt \<le> - 27.78 then ''Gold Coast''
      else if - 26.9 \<le> lt \<and> lt \<le> - 26.3 then ''Sunshine Coast''
      else ''Other'')"

text \<open>One row of \<open>live_data\<close>: the two \<open>fillna\<close> defaults and the derived columns. The
  in-place \<open>fillna\<close> on the selected column is taken to update the frame, as the program
  relies on; the delay column is kept as an integer.\<close>

definition live_row :: "vehicle_row \<times> update_row option \<Rightarrow> row" where
  "live_row p =
     vehicle_row.extend (fst p)
       \<lparr>delay = (case snd p of None \<Rightarrow> 0 | Some u \<Rightarrow> u_delay u),
        status = (case snd p of None \<Rightarrow> ''On Time'' | Some u \<Rightarrow> u_status u),
        route_name = takeWhile (\<lambda>c. c \<noteq> CHR ''-'') (route_id (fst p)),
        region = categorize_region (lat (fst p))\<rparr>"

text \<open>Lines 90 to 100. A frame of no trip updates has no \<open>trip_id\<close> column, and
  \<open>merge\<close> raises \<open>KeyError\<close> for it.\<close>

definition live_data_of :: "vehicle_row list \<Rightarrow> update_row list \<Rightarrow> error + row list" where
  "live_data_of vehicles_df updates_df =
     (if updates_df = [] then Inl KeyError
      else Inr (map live_row (left_merge trip_id u_trip_id vehicles_df updates_df)))"

definition cache_valid :: "cache \<Rightarrow> datetime \<Rightarrow> bool" where
  "cache_valid c now =
     (case last_refreshed c of
        None \<Rightarrow> False
      | Some t \<Rightarrow> total_seconds (now - t) < REFRESH_INTERVAL_SECONDS)"

text \<open>Lines 74, 82 and 88: the cached frame with \<open>last_refreshed or now\<close> (at line 74
  \<open>last_refreshed\<close> is set).\<close>

definition stale :: "cache \<Rightarrow> datetime \<Rightarrow> (row list \<times> datetime) result" where
  "stale c now = Returned (data c, case last_refreshed c of None \<Rightarrow> now | Some t \<Rightarrow> t)"

definition get_live_bus_data ::
  "(string \<Rightarrow> http_outcome) \<Rightarrow> datetime \<Rightarrow> state \<Rightarrow> (row list \<times> datetime) result \<times> state" where
  "get_live_bus_data net now s =
     (if cache_valid (CACHE s) now then (stale (CACHE s) now, s)
      else
        let (vehicle_content, s1) = fetch_gtfs_rt net VEHICLE_POSITIONS_URL s;
            (trip_content, s2) = fetch_gtfs_rt net TRIP_UPDATES_URL s1
        in if falsy vehicle_content \<or> falsy trip_content then (stale (CACHE s2) now, s2)
           else
             (case parse_vehicle_positions (the vehicle_content) of
                Inl e \<Rightarrow> (Raised e, s2)
              | Inr vehicles_df \<Rightarrow>
                  (case parse_trip_updates (the trip_content) of
                     Inl e \<Rightarrow> (Raised e, s2)
                   | Inr updates_df \<Rightarrow>
                       if vehicles_df = [] then (stale (CACHE s2) now, s2)
                       else
                         (case live_data_of vehicles_df updates_df of
                            Inl e \<Rightarrow> (Raised e, s2)
                          | Inr live_data \<Rightarrow>
                              (Returned (live_data, now),
                               s2\<lparr>CACHE := \<lparr>data = live_data, last_refreshed = Some now,
                                               previous_data = data (CACHE s2)\<rparr>\<rparr>)))))"

section \<open>The page route\<close>

text \<open>The query parameters: \<open>request.args.get\<close> yields \<open>None\<close> for an absent parameter
  (the default is applied below), \<open>getlist\<close> the list of the values given.\<close>

record args =
  arg_region :: "string option"
  arg_route :: "string option"
  arg_status :: "string list"
  arg_vehicle :: "string option"

record joined_row = row +
  lat_prev :: "real option"
  lon_prev :: "real option"

datatype map_item = AntPath "(real \<times> real) list" | Marker "real \<times> real" string

datatype folium_map = NoBuses | FoliumMap "map_item list"

record selected_filters =
  sel_region :: string
  sel_route :: string
  sel_status :: "string list"
  sel_vehicle :: string

record page_context =
  tracked_buses_count :: nat
  ctx_last_refreshed :: datetime
  map_html :: folium_map
  ctx_region_options :: "string list"
  ctx_route_options :: "string list"
  ctx_status_options :: "string list"
  ctx_vehicle_options :: "string list"
  ctx_selected_filters :: selected_filters

datatype response = Unavailable503 | Page page_context

text \<open>\<open>Series.unique\<close>: the distinct values in order of first appearance.\<close>

definition unique :: "'a list \<Rightarrow> 'a list" where
  "unique xs = rev (remdups (rev xs))"

definition selected_region :: "args \<Rightarrow> string" where
  "selected_region a = (case arg_region a of None \<Rightarrow> ''Gold Coast'' | Some v \<Rightarrow> v)"

definition selected_route :: "args \<Rightarrow> string" where
  "selected_route a = (case arg_route a of None \<Rightarrow> ''700'' | Some v \<Rightarrow> v)"

definition selected_vehicle :: "args \<Rightarrow> string" where
  "selected_vehicle a = (case arg_vehicle a of None \<Rightarrow> ''All'' | Some v \<Rightarrow> v)"

definition region_options :: "row list \<Rightarrow> string list" where
  "region_options master_df = ''All'' # sort (unique (map region master_df))"

definition df_for_route_options :: "row list \<Rightarrow> args \<Rightarrow> row list" where
  "df_for_route_options master_df a =
     (if selected_region a \<noteq> ''All'' then filter (\<lambda>r. region r = selected_region a) master_df
      else master_df)"

definition route_options :: "row list \<Rightarrow> args \<Rightarrow> string list" where
  "route_options master_df a = ''All'' # sort (unique (map route_name (df_for_route_options master_df a)))"

definition df_for_status_options :: "row list \<Rightarrow> args \<Rightarrow> row list" where
  "df_for_status_options master_df a =
     (if selected_route a \<noteq> ''All''
      then filter (\<lambda>r. route_name r = selected_route a) (df_for_route_options master_df a)
      else df_for_route_options master_df a)"

definition status_options :: "row list \<Rightarrow> args \<Rightarrow> string list" where
  "status_options master_df a = sort (unique (map status (df_for_status_options master_df a)))"

definition selected_status :: "row list \<Rightarrow> args \<Rightarrow> string list" where
  "selected_status master_df a =
     (if arg_status a = [] then status_options master_df a else arg_status a)"

definition df_for_vehicle_options :: "row list \<Rightarrow> args \<Rightarrow> row list" where
  "df_for_vehicle_options master_df a =
     filter (\<lambda>r. status r \<in> set (selected_status master_df a)) (df_for_status_options master_df a)"

definition vehicle_options :: "row list \<Rightarrow> args \<Rightarrow> string list" where
  "vehicle_options master_df a =
     ''All'' # sort (unique (map vehicle_id (df_for_vehicle_options master_df a)))"

definition filtered_df :: "row list \<Rightarrow> args \<Rightarrow> row list" where
  "filtered_df master_df a =
     (if selected_vehicle a \<noteq> ''All''
      then filter (\<lambda>r. vehicle_id r = selected_vehicle a) (df_for_vehicle_options master_df a)
      else df_for_vehicle_options master_df a)"

text \<open>Lines 149 to 155: the left merge with the previous positions on \<open>vehicle_id\<close>, or
  two missing columns when there is no previous snapshot.\<close>

definition with_previous :: "row list \<Rightarrow> row list \<Rightarrow> joined_row list" where
  "with_previous filtered previous_df =
     (if previous_df \<noteq> []
      then map (\<lambda>(r, p). row.extend r \<lparr>lat_prev = map_option lat p, lon_prev = map_option lon p\<rparr>)
             (left_merge vehicle_id vehicle_id filtered previous_df)
      else map (\<lambda>r. row.extend r \<lparr>lat_prev = None, lon_prev = None\<rparr>) filtered)"

text \<open>Lines 162 to 167: what one row adds to the map. The map centre (a mean of
  floats) and the detached label icon are not modelled.\<close>

definition row_items :: "joined_row \<Rightarrow> map_item list" where
  "row_items r =
     (if lat_prev r \<noteq> None \<and> (Some (lat r) \<noteq> lat_prev r \<or> Some (lon r) \<noteq> lon_prev r)
      then [AntPath [(the (lat_prev r), the (lon_prev r)), (lat r, lon r)]] else []) @
     [Marker (lat r, lon r)
        (if status r = ''Delayed'' then ''red'' else (if status r = ''Early'' then ''blue'' else ''green''))]"

definition folium :: "joined_row list \<Rightarrow> folium_map" where
  "folium rows = (if rows \<noteq> [] then FoliumMap (concat (map row_items rows)) else NoBuses)"

fun ant_paths :: "folium_map \<Rightarrow> (real \<times> real) list list" where
  "ant_paths NoBuses = []"
| "ant_paths (FoliumMap items) = concat (map (\<lambda>i. case i of AntPath l \<Rightarrow> [l] | Marker _ _ \<Rightarrow> []) items)"

definition page :: "row list \<Rightarrow> datetime \<Rightarrow> row list \<Rightarrow> args \<Rightarrow> page_context" where
  "page master_df last_refreshed_time previous_df a =
     \<lparr>tracked_buses_count = length (with_previous (filtered_df master_df a) previous_df),
      ctx_last_refreshed = last_refreshed_time,
      map_html = folium (with_previous (filtered_df master_df a) previous_df),
      ctx_region_options = region_options master_df,
      ctx_route_options = route_options master_df a,
      ctx_status_options = status_options master_df a,
      ctx_vehicle_options = vehicle_options master_df a,
      ctx_selected_filters =
        \<lparr>sel_region = selected_region a, sel_route = selected_route a,
         sel_status = selected_status master_df a, sel_vehicle = selected_vehicle a\<rparr>\<rparr>"

definition index ::
  "(string \<Rightarrow> http_outcome) \<Rightarrow> datetime \<Rightarrow> args \<Rightarrow> state \<Rightarrow> response result \<times> state" where
  "index net now a s =
     (case get_live_bus_data net now s of
        (Raised e, s') \<Rightarrow> (Raised e, s')
      | (Returned (master_df, last_refreshed_time), s') \<Rightarrow>
          if master_df = [] then (Returned Unavailable503, s')
          else (Returned (Page (page master_df last_refreshed_time (previous_data (CACHE s')) a)), s'))"

section \<open>Environments and states used in the statements\<close>

text \<open>A network that answers the two feed URLs with the given outcomes.\<close>

definition net_of :: "http_outcome \<Rightarrow> http_outcome \<Rightarrow> string \<Rightarrow> http_outcome" where
  "net_of v t url = (if url = VEHICLE_POSITIONS_URL then v else if url = TRIP_UPDATES_URL then t else RequestException)"

text \<open>The state after one refresh attempt that left the cache alone.\<close>

definition logged :: "state \<Rightarrow> state" where
  "logged s = s\<lparr>requested := requested s @ [VEHICLE_POSITIONS_URL, TRIP_UPDATES_URL]\<rparr>"

text \<open>A state whose cache was last refreshed at \<open>t\<close>.\<close>

definition cached_at :: "datetime \<Rightarrow> state" where
  "cached_at t = \<lparr>CACHE = \<lparr>data = [], last_refreshed = Some t, previous_data = []\<rparr>, requested = []\<rparr>"

text \<open>The refresh attempts that end at line 82 or line 88: a fetch returned \<open>None\<close> or
  empty bytes, or both payloads decoded and the vehicle frame is empty.\<close>

fun fetch_failed :: "http_outcome \<Rightarrow> bool" where
  "fetch_failed RequestException = True"
| "fetch_failed (Response Empty) = True"
| "fetch_failed (Response _) = False"

fun no_vehicles :: "http_outcome \<Rightarrow> http_outcome \<Rightarrow> bool" where
  "no_vehicles (Response (Wire fv)) (Response (Wire ft)) = (List.map_filter vehicle fv = [])"
| "no_vehicles _ _ = False"

definition refresh_fails :: "(string \<Rightarrow> http_outcome) \<Rightarrow> bool" where
  "refresh_fails net =
     (fetch_failed (net VEHICLE_POSITIONS_URL) \<or> fetch_failed (net TRIP_UPDATES_URL) \<or>
      no_vehicles (net VEHICLE_POSITIONS_URL) (net TRIP_UPDATES_URL))"

text \<open>The state at process start.\<close>

definition fresh_state :: state where
  "fresh_state = \<lparr>CACHE = initial_cache, requested = []\<rparr>"

text \<open>Feed entities, a snapshot row and a request used as concrete inputs.\<close>

definition example_position :: vehicle_position where
  "example_position =
     \<lparr>vp_trip_id = ''T1'', vp_route_id = ''700-1234'', vp_label = ''B1'', vp_latitude = - 28,
      vp_longitude = 153.4, vp_current_stop_sequence = 3, vp_stop_id = ''S9'',
      vp_current_status = 2, vp_timestamp = None\<rparr>"

definition other_position :: vehicle_position where
  "other_position =
     \<lparr>vp_trip_id = ''T2'', vp_route_id = ''111-5678'', vp_label = ''B2'', vp_latitude = - 27.5,
      vp_longitude = 153, vp_current_stop_sequence = 1, vp_stop_id = ''S1'',
      vp_current_status = 1, vp_timestamp = Some 1700000000\<rparr>"

definition example_update :: trip_update where
  "example_update = \<lparr>tu_trip_id = ''T1'', tu_stop_time_update = [400]\<rparr>"

definition vehicle_entity :: "vehicle_position \<Rightarrow> feed_entity" where
  "vehicle_entity v = \<lparr>vehicle = Some v, trip_update = None\<rparr>"

definition update_entity :: "trip_update \<Rightarrow> feed_entity" where
  "update_entity u = \<lparr>vehicle = None, trip_update = Some u\<rparr>"

definition late_position :: vehicle_position where
  "late_position = example_position\<lparr>vp_timestamp := Some 9223372036854775808\<rparr>"

definition example_vehicle :: vehicle_row where
  "example_vehicle =
     \<lparr>trip_id = ''T1'', route_id = ''700-1234'', vehicle_id = ''B1'', lat = - 28, lon = 153.4,
      stop_sequence = 3, stop_id = ''S9'', current_status = 2, timestamp = None\<rparr>"

definition other_vehicle :: vehicle_row where
  "other_vehicle =
     \<lparr>trip_id = ''T2'', route_id = ''111-5678'', vehicle_id = ''B2'', lat = - 27.5, lon = 153,
      stop_sequence = 1, stop_id = ''S1'', current_status = 1, timestamp = Some 1700000000\<rparr>"

definition example_row :: row where
  "example_row = live_row (example_vehicle, None)"

definition default_args :: args where
  "default_args = \<lparr>arg_region = None, arg_route = None, arg_status = [], arg_vehicle = None\<rparr>"

section \<open>Classification\<close>

lemma updates_of_first_delay:
  "updates_of feed =
   map (\<lambda>tu. \<lparr>u_trip_id = tu_trip_id tu, u_delay = hd (tu_stop_time_update tu),
               u_status = classify (hd (tu_stop_time_update tu))\<rparr>)
     (filter (\<lambda>tu. tu_stop_time_update tu \<noteq> []) (List.map_filter trip_update feed))"
  by (induction feed) (simp_all add: List.map_filter_simps split: option.splits list.splits)

text \<open>C4: the status derived from a delay \<open>d\<close> is Delayed exactly when \<open>d > 300\<close>, Early
  exactly when \<open>d < -60\<close> and On Time otherwise; 300 and -60 are On Time. The trip-update
  records decoded from a feed are, in order, one per trip update that has a stop-time
  update, with the delay of its first stop-time update and the status derived from that
  delay.\<close>

theorem classify_thresholds:
  "(classify d = ''Delayed'') = (d > 300) \<and>
   (classify d = ''Early'') = (d < - 60) \<and>
   (classify d = ''On Time'') = (- 60 \<le> d \<and> d \<le> 300) \<and>
   classify 300 = ''On Time'' \<and> classify (- 60) = ''On Time'' \<and>
   parse_trip_updates (Wire feed) =
     Inr (map (\<lambda>tu. \<lparr>u_trip_id = tu_trip_id tu, u_delay = hd (tu_stop_time_update tu),
                      u_status = classify (hd (tu_stop_time_update tu))\<rparr>)
            (filter (\<lambda>tu. tu_stop_time_update tu \<noteq> []) (List.map_filter trip_update feed)))"
proof -
  have "parse_trip_updates (Wire feed) = Inr (updates_of feed)"
    by (simp add: parse_trip_updates_def)
  then show ?thesis
    by (auto simp: classify_def updates_of_first_delay)
qed

text \<open>Five trip updates: first delays 300, 301, -60 and -61, each followed or not by
  later stop-time updates, and one with no stop-time update.\<close>

theorem classify_thresholds_witness:
  "parse_trip_updates (Wire
     [update_entity \<lparr>tu_trip_id = ''A'', tu_stop_time_update = [300, 999]\<rparr>,
      update_entity \<lparr>tu_trip_id = ''B'', tu_stop_time_update = [301]\<rparr>,
      update_entity \<lparr>tu_trip_id = ''C'', tu_stop_time_update = [- 60, - 900]\<rparr>,
      update_entity \<lparr>tu_trip_id = ''D'', tu_stop_time_update = [- 61, 0]\<rparr>,
      update_entity \<lparr>tu_trip_id = ''E'', tu_stop_time_update = []\<rparr>]) =
   Inr [\<lparr>u_trip_id = ''A'', u_delay = 300, u_status = ''On Time''\<rparr>,
        \<lparr>u_trip_id = ''B'', u_delay = 301, u_status = ''Delayed''\<rparr>,
        \<lparr>u_trip_id = ''C'', u_delay = - 60, u_status = ''On Time''\<rparr>,
        \<lparr>u_trip_id = ''D'', u_delay = - 61, u_status = ''Early''\<rparr>]"
  using classify_thresholds [of 0
      "[update_entity \<lparr>tu_trip_id = ''A'', tu_stop_time_update = [300, 999]\<rparr>,
        update_entity \<lparr>tu_trip_id = ''B'', tu_stop_time_update = [301]\<rparr>,
        update_entity \<lparr>tu_trip_id = ''C'', tu_stop_time_update = [- 60, - 900]\<rparr>,
        update_entity \<lparr>tu_trip_id = ''D'', tu_stop_time_update = [- 61, 0]\<rparr>,
        update_entity \<lparr>tu_trip_id = ''E'', tu_stop_time_update = []\<rparr>]"]
    classify_thresholds [of 301] classify_thresholds [of "- 61"]
  by (simp add: List.map_filter_simps update_entity_def)

text \<open>C5: the region is that of the first bucket, in the order Brisbane, Gold Coast,
  Sunshine Coast, whose latitude range holds, and Other when none holds; latitude
  -27.75 is Brisbane and -27.78 is Gold Coast; the region of a row is a function of
  its latitude alone, so changing the longitude never changes it.\<close>

theorem categorize_region_first_match:
  "(categorize_region lt = ''Brisbane'') = (- 27.75 \<le> lt \<and> lt \<le> - 27) \<and>
   (categorize_region lt = ''Gold Coast'') =
      (\<not> (- 27.75 \<le> lt \<and> lt \<le> - 27) \<and> - 28.2 \<le> lt \<and> lt \<le> - 27.78) \<and>
   (categorize_region lt = ''Sunshine Coast'') =
      (\<not> (- 27.75 \<le> lt \<and> lt \<le> - 27) \<and> \<not> (- 28.2 \<le> lt \<and> lt \<le> - 27.78) \<and>
       - 26.9 \<le> lt \<and> lt \<le> - 26.3) \<and>
   (categorize_region lt = ''Other'') =
      (\<not> (- 27.75 \<le> lt \<and> lt \<le> - 27) \<and> \<not> (- 28.2 \<le> lt \<and> lt \<le> - 27.78) \<and>
       \<not> (- 26.9 \<le> lt \<and> lt \<le> - 26.3)) \<and>
   categorize_region (- 27.75) = ''Brisbane'' \<and>
   categorize_region (- 27.78) = ''Gold Coast'' \<and>
   region (live_row (v, u)) = categorize_region (lat v) \<and>
   region (live_row (v\<lparr>lon := x\<rparr>, u)) = region (live_row (v, u))"
  by (simp add: categorize_region_def live_row_def vehicle_row.defs)

section \<open>The refresh cache\<close>

lemma urls_distinct: "VEHICLE_POSITIONS_URL \<noteq> TRIP_UPDATES_URL"
  by (simp add: VEHICLE_POSITIONS_URL_def TRIP_UPDATES_URL_def)

lemma net_of_simps [simp]:
  "net_of v t VEHICLE_POSITIONS_URL = v" "net_of v t TRIP_UPDATES_URL = t"
  using urls_distinct by (auto simp: net_of_def)

lemma get_fresh:
  "cache_valid (CACHE s) now \<Longrightarrow> get_live_bus_data net now s = (stale (CACHE s) now, s)"
  by (simp add: get_live_bus_data_def)

lemma get_requested:
  "\<not> cache_valid (CACHE s) now \<Longrightarrow>
   requested (snd (get_live_bus_data net now s)) = requested s @ [VEHICLE_POSITIONS_URL, TRIP_UPDATES_URL]"
  by (auto simp: get_live_bus_data_def fetch_gtfs_rt_def Let_def split: http_outcome.splits sum.splits prod.splits)

lemma get_fetch_failed:
  assumes "\<not> cache_valid (CACHE s) now"
    and "net VEHICLE_POSITIONS_URL = RequestException \<or> net VEHICLE_POSITIONS_URL = Response Empty \<or>
         net TRIP_UPDATES_URL = RequestException \<or> net TRIP_UPDATES_URL = Response Empty"
  shows "get_live_bus_data net now s = (stale (CACHE s) now, logged s)"
  using assms
  by (auto simp: get_live_bus_data_def fetch_gtfs_rt_def Let_def logged_def split: http_outcome.splits)

lemma vehicles_of_no_vehicle:
  "List.map_filter vehicle fv = [] \<Longrightarrow> vehicles_of fv = Inr []"
  by (induction fv) (simp_all add: List.map_filter_simps split: option.splits)

lemma vehicles_of_rows:
  "vehicles_of fv = Inr vs \<Longrightarrow>
   list_all2 (\<lambda>v r. vehicle_of v = Inr r) (List.map_filter vehicle fv) vs"
  by (induction fv arbitrary: vs)
     (auto simp: List.map_filter_simps split: option.splits sum.splits)

lemma vehicles_of_error:
  "(vehicles_of fv = Inl e) =
   (e = OverflowError \<and>
    (\<exists>v\<in>set (List.map_filter vehicle fv). \<exists>t. vp_timestamp v = Some t \<and> MAX_TIMESTAMP < t))"
  by (induction fv)
     (auto simp: List.map_filter_simps vehicle_of_def timestamp_text_def fromtimestamp_def
        split: option.splits sum.splits if_splits)

lemma get_decoded:
  assumes "\<not> cache_valid (CACHE s) now"
    and "net VEHICLE_POSITIONS_URL = Response (Wire fv)" and "net TRIP_UPDATES_URL = Response (Wire ft)"
    and "vehicles_of fv = Inr vs"
  shows "get_live_bus_data net now s =
     (if vs = [] then (stale (CACHE s) now, logged s)
      else case live_data_of vs (updates_of ft) of
          Inl e \<Rightarrow> (Raised e, logged s)
        | Inr live_data \<Rightarrow> (Returned (live_data, now),
             (logged s)\<lparr>CACHE := \<lparr>data = live_data, last_refreshed = Some now, previous_data = data (CACHE s)\<rparr>\<rparr>))"
  using assms
  by (simp add: get_live_bus_data_def fetch_gtfs_rt_def Let_def logged_def parse_vehicle_positions_def
      parse_trip_updates_def split: sum.splits)

lemma get_vehicle_error:
  assumes "\<not> cache_valid (CACHE s) now"
    and "net VEHICLE_POSITIONS_URL = Response cv" and "net TRIP_UPDATES_URL = Response ct"
    and "cv \<noteq> Empty" and "ct \<noteq> Empty" and "parse_vehicle_positions cv = Inl e"
  shows "get_live_bus_data net now s = (Raised e, logged s)"
  using assms
  by (cases cv; cases ct)
     (simp_all add: get_live_bus_data_def fetch_gtfs_rt_def Let_def logged_def)

lemma get_trip_error:
  assumes "\<not> cache_valid (CACHE s) now"
    and "net VEHICLE_POSITIONS_URL = Response cv" and "net TRIP_UPDATES_URL = Response ct"
    and "cv \<noteq> Empty" and "ct \<noteq> Empty"
    and "parse_vehicle_positions cv = Inr vs" and "parse_trip_updates ct = Inl e"
  shows "get_live_bus_data net now s = (Raised e, logged s)"
  using assms
  by (cases cv; cases ct)
     (simp_all add: get_live_bus_data_def fetch_gtfs_rt_def Let_def logged_def)

lemma cache_valid_Some:
  "last_refreshed c = Some t \<Longrightarrow> cache_valid c now = (total_seconds (now - t) < 60)"
  by (simp add: cache_valid_def REFRESH_INTERVAL_SECONDS_def)

lemma cache_valid_mono:
  "\<not> cache_valid c now \<Longrightarrow> now \<le> now' \<Longrightarrow> \<not> cache_valid c now'"
  by (auto simp: cache_valid_def total_seconds_def REFRESH_INTERVAL_SECONDS_def split: option.splits)

lemma stale_Some: "last_refreshed c = Some t \<Longrightarrow> stale c now = Returned (data c, t)"
  by (simp add: stale_def)

text \<open>C2: once a refresh has succeeded at \<open>t\<close>, a call less than 60 seconds after \<open>t\<close>
  returns the cached snapshot with \<open>t\<close> and leaves the state as it was (no URL is
  requested); two calls within the interval return the same snapshot and timestamp;
  a call made when the interval has elapsed requests each of the two feeds once.\<close>

theorem cache_freshness:
  assumes "last_refreshed (CACHE s) = Some t"
  shows "(total_seconds (now - t) < 60 \<longrightarrow>
            get_live_bus_data net now s = (Returned (data (CACHE s), t), s)) \<and>
         (total_seconds (now1 - t) < 60 \<and> total_seconds (now2 - t) < 60 \<longrightarrow>
            get_live_bus_data net2 now2 (snd (get_live_bus_data net1 now1 s)) =
            get_live_bus_data net1 now1 s) \<and>
         (\<not> total_seconds (now3 - t) < 60 \<longrightarrow>
            requested (snd (get_live_bus_data net3 now3 s)) =
            requested s @ [VEHICLE_POSITIONS_URL, TRIP_UPDATES_URL])"
proof (intro conjI impI)
  assume "total_seconds (now - t) < 60"
  then have "cache_valid (CACHE s) now" using assms by (simp add: cache_valid_Some)
  then show "get_live_bus_data net now s = (Returned (data (CACHE s), t), s)"
    using assms by (simp add: get_fresh stale_Some)
next
  assume "total_seconds (now1 - t) < 60 \<and> total_seconds (now2 - t) < 60"
  then have v: "cache_valid (CACHE s) now1" "cache_valid (CACHE s) now2"
    using assms by (simp_all add: cache_valid_Some)
  then show "get_live_bus_data net2 now2 (snd (get_live_bus_data net1 now1 s)) =
      get_live_bus_data net1 now1 s"
    using assms by (simp add: get_fresh stale_Some)
next
  assume "\<not> total_seconds (now3 - t) < 60"
  then have "\<not> cache_valid (CACHE s) now3" using assms by (simp add: cache_valid_Some)
  then show "requested (snd (get_live_bus_data net3 now3 s)) =
      requested s @ [VEHICLE_POSITIONS_URL, TRIP_UPDATES_URL]"
    by (rule get_requested)
qed

text \<open>The three parts at a cache refreshed at instant 0: 59.999999 seconds later the
  cache answers, 60 seconds later both feeds are requested.\<close>

theorem cache_freshness_witness:
  "get_live_bus_data (net_of RequestException RequestException) 59999999 (cached_at 0) =
     (Returned ([], 0), cached_at 0) \<and>
   get_live_bus_data (net_of RequestException RequestException) 59999999
     (snd (get_live_bus_data (net_of RequestException RequestException) 1 (cached_at 0))) =
   get_live_bus_data (net_of RequestException RequestException) 1 (cached_at 0) \<and>
   requested (snd (get_live_bus_data (net_of RequestException RequestException) 60000000 (cached_at 0))) =
     [VEHICLE_POSITIONS_URL, TRIP_UPDATES_URL]"
proof -
  have h: "last_refreshed (CACHE (cached_at 0)) = Some 0" by (simp add: cached_at_def)
  have d: "data (CACHE (cached_at 0)) = []" "requested (cached_at 0) = []" by (simp_all add: cached_at_def)
  show ?thesis
    using cache_freshness [OF h, of 59999999 "net_of RequestException RequestException" 1 59999999
        "net_of RequestException RequestException" "net_of RequestException RequestException" 60000000
        "net_of RequestException RequestException"]
    by (simp add: total_seconds_def d)
qed

lemma cache_logged [simp]: "CACHE (logged s) = CACHE s"
  by (simp add: logged_def)

lemma requested_logged [simp]:
  "requested (logged s) = requested s @ [VEHICLE_POSITIONS_URL, TRIP_UPDATES_URL]"
  by (simp add: logged_def)

lemma get_no_vehicles:
  assumes "\<not> cache_valid (CACHE s) now"
    and "net VEHICLE_POSITIONS_URL = Response (Wire fv)" and "net TRIP_UPDATES_URL = Response (Wire ft)"
    and "List.map_filter vehicle fv = []"
  shows "get_live_bus_data net now s = (stale (CACHE s) now, logged s)"
  using assms by (simp add: get_decoded [OF _ _ _ vehicles_of_no_vehicle])

lemma fetch_failed_iff: "fetch_failed x \<longleftrightarrow> x = RequestException \<or> x = Response Empty"
  by (induction x rule: fetch_failed.induct) simp_all

lemma no_vehicles_iff:
  "no_vehicles x y \<longleftrightarrow>
   (\<exists>fv ft. x = Response (Wire fv) \<and> y = Response (Wire ft) \<and> List.map_filter vehicle fv = [])"
  by (induction x y rule: no_vehicles.induct) simp_all

lemma get_refresh_fails:
  assumes "\<not> cache_valid (CACHE s) now" and "refresh_fails net"
  shows "get_live_bus_data net now s = (stale (CACHE s) now, logged s)"
  using assms unfolding refresh_fails_def fetch_failed_iff no_vehicles_iff
  by (elim disjE exE conjE) (simp_all add: get_fetch_failed get_no_vehicles)

text \<open>C3, amended: in a refresh attempt in which a fetch fails (or yields an empty
  body), or both payloads decode and no vehicle is decoded, the call returns the cached
  snapshot with the last successful refresh time (the current time when there is none),
  the three cache fields are unchanged, and any later call fetches again.\<close>

theorem failed_refresh_keeps_cache:
  assumes "\<not> cache_valid (CACHE s) now" and "refresh_fails net"
  shows "fst (get_live_bus_data net now s) =
           Returned (data (CACHE s), case last_refreshed (CACHE s) of None \<Rightarrow> now | Some t \<Rightarrow> t) \<and>
         CACHE (snd (get_live_bus_data net now s)) = CACHE s \<and>
         (\<forall>now' net'. now \<le> now' \<longrightarrow>
            requested (snd (get_live_bus_data net' now' (snd (get_live_bus_data net now s)))) =
            requested (snd (get_live_bus_data net now s)) @ [VEHICLE_POSITIONS_URL, TRIP_UPDATES_URL])"
proof -
  have g: "get_live_bus_data net now s = (stale (CACHE s) now, logged s)"
    using assms by (rule get_refresh_fails)
  have "\<not> cache_valid (CACHE (logged s)) now'" if "now \<le> now'" for now'
    using assms(1) that by (simp add: cache_valid_mono)
  then show ?thesis
    by (simp add: g stale_def get_requested)
qed

text \<open>A first request whose vehicle feed decodes to no vehicle, followed by a second
  request one microsecond later.\<close>

theorem failed_refresh_keeps_cache_witness:
  "fst (get_live_bus_data (net_of (Response (Wire [])) (Response (Wire []))) 7 fresh_state) = Returned ([], 7) \<and>
   CACHE (snd (get_live_bus_data (net_of (Response (Wire [])) (Response (Wire []))) 7 fresh_state)) = initial_cache \<and>
   requested (snd (get_live_bus_data (net_of RequestException RequestException) 8
      (snd (get_live_bus_data (net_of (Response (Wire [])) (Response (Wire []))) 7 fresh_state)))) =
   requested (snd (get_live_bus_data (net_of (Response (Wire [])) (Response (Wire []))) 7 fresh_state)) @
     [VEHICLE_POSITIONS_URL, TRIP_UPDATES_URL]"
proof -
  have h1: "\<not> cache_valid (CACHE fresh_state) 7"
    by (simp add: fresh_state_def initial_cache_def cache_valid_def)
  have h2: "refresh_fails (net_of (Response (Wire [])) (Response (Wire [])))"
    by (simp add: refresh_fails_def List.map_filter_simps)
  have c: "CACHE fresh_state = initial_cache" "data initial_cache = []" "last_refreshed initial_cache = None"
    by (simp_all add: fresh_state_def initial_cache_def)
  show ?thesis
    using failed_refresh_keeps_cache [OF h1 h2] by (simp add: c)
qed

text \<open>C3 as stated fails: the trip-update payload is parsed before the vehicle frame is
  tested for emptiness, so an empty vehicle set with an undecodable trip-update payload
  raises \<open>DecodeError\<close> instead of returning the cached snapshot.\<close>

theorem failed_refresh_counterexample:
  "fst (get_live_bus_data (net_of (Response (Wire [])) (Response Malformed)) 7 fresh_state) = Raised DecodeError"
proof -
  have "get_live_bus_data (net_of (Response (Wire [])) (Response Malformed)) 7 fresh_state =
      (Raised DecodeError, logged fresh_state)"
    by (rule get_trip_error [where cv = "Wire []" and ct = Malformed and vs = "[]"])
       (simp_all add: fresh_state_def initial_cache_def cache_valid_def
          parse_vehicle_positions_def parse_trip_updates_def)
  then show ?thesis by simp
qed

text \<open>With at least one trip update decoded, a refresh does update the cache: the
  previous snapshot becomes the old current one, the current one the merged frame.\<close>

lemma refresh_success:
  assumes "\<not> cache_valid (CACHE s) now"
    and "net VEHICLE_POSITIONS_URL = Response (Wire fv)" and "net TRIP_UPDATES_URL = Response (Wire ft)"
    and "vehicles_of fv = Inr vs" and "vs \<noteq> []" and "updates_of ft \<noteq> []"
  shows "get_live_bus_data net now s =
     (Returned (map live_row (left_merge trip_id u_trip_id vs (updates_of ft)), now),
      (logged s)\<lparr>CACHE := \<lparr>data = map live_row (left_merge trip_id u_trip_id vs (updates_of ft)),
         last_refreshed = Some now, previous_data = data (CACHE s)\<rparr>\<rparr>)"
  using assms by (simp add: get_decoded live_data_of_def)

lemma example_decoded:
  "vehicle_of example_position = Inr example_vehicle"
  "vehicle_of other_position = Inr other_vehicle"
  "vehicle_of late_position = Inl OverflowError"
  by (simp_all add: vehicle_of_def timestamp_text_def fromtimestamp_def MAX_TIMESTAMP_def
      example_position_def other_position_def late_position_def example_vehicle_def
      other_vehicle_def)

section \<open>Errors that reach the caller\<close>

lemma parse_trip_updates_error:
  "(parse_trip_updates ct = Inl e) = (ct = Malformed \<and> e = DecodeError)"
  by (cases ct) (auto simp: parse_trip_updates_def)

lemma parse_vehicle_positions_error:
  "(parse_vehicle_positions cv = Inl e) =
   (cv = Malformed \<and> e = DecodeError \<or>
    e = OverflowError \<and>
    (\<exists>fv. cv = Wire fv \<and>
       (\<exists>v\<in>set (List.map_filter vehicle fv). \<exists>t. vp_timestamp v = Some t \<and> MAX_TIMESTAMP < t)))"
  by (cases cv) (auto simp: parse_vehicle_positions_def vehicles_of_error)

text \<open>C6, amended: the call returns the cached snapshot and timestamp, without raising,
  when the cache is fresh, when a fetch fails or yields an empty body, and when both
  payloads decode and no vehicle is decoded. When both bodies are non-empty, an error
  raised while the vehicle payload is parsed, and otherwise one raised while the
  trip-update payload is parsed, reaches the caller with the cache unchanged: that is
  \<open>DecodeError\<close> for a body that does not decode, and the error of
  \<open>datetime.fromtimestamp\<close> for a decoded vehicle whose timestamp is out of range.\<close>

theorem decode_error_propagates:
  "(cache_valid (CACHE s) now \<or> refresh_fails net \<longrightarrow>
      fst (get_live_bus_data net now s) = stale (CACHE s) now) \<and>
   (\<not> cache_valid (CACHE s) now \<and> net VEHICLE_POSITIONS_URL = Response cv \<and>
    net TRIP_UPDATES_URL = Response ct \<and> cv \<noteq> Empty \<and> ct \<noteq> Empty \<and>
    parse_vehicle_positions cv = Inl e \<longrightarrow>
      get_live_bus_data net now s = (Raised e, logged s)) \<and>
   (\<not> cache_valid (CACHE s) now \<and> net VEHICLE_POSITIONS_URL = Response cv \<and>
    net TRIP_UPDATES_URL = Response ct \<and> cv \<noteq> Empty \<and> ct \<noteq> Empty \<and>
    parse_vehicle_positions cv = Inr vs \<and> parse_trip_updates ct = Inl e \<longrightarrow>
      get_live_bus_data net now s = (Raised e, logged s)) \<and>
   (parse_vehicle_positions cv = Inl e) =
     (cv = Malformed \<and> e = DecodeError \<or>
      e = OverflowError \<and>
      (\<exists>fv. cv = Wire fv \<and>
         (\<exists>v\<in>set (List.map_filter vehicle fv). \<exists>t. vp_timestamp v = Some t \<and> MAX_TIMESTAMP < t))) \<and>
   (parse_trip_updates ct = Inl e) = (ct = Malformed \<and> e = DecodeError)"
proof -
  have "fst (get_live_bus_data net now s) = stale (CACHE s) now"
    if "cache_valid (CACHE s) now \<or> refresh_fails net"
    using that by (cases "cache_valid (CACHE s) now") (auto simp: get_fresh get_refresh_fails)
  moreover have "get_live_bus_data net now s = (Raised e, logged s)"
    if "\<not> cache_valid (CACHE s) now" "net VEHICLE_POSITIONS_URL = Response cv"
      "net TRIP_UPDATES_URL = Response ct" "cv \<noteq> Empty" "ct \<noteq> Empty"
      "parse_vehicle_positions cv = Inl e"
    using that by (rule get_vehicle_error)
  moreover have "get_live_bus_data net now s = (Raised e, logged s)"
    if "\<not> cache_valid (CACHE s) now" "net VEHICLE_POSITIONS_URL = Response cv"
      "net TRIP_UPDATES_URL = Response ct" "cv \<noteq> Empty" "ct \<noteq> Empty"
      "parse_vehicle_positions cv = Inr vs" "parse_trip_updates ct = Inl e"
    using that by (rule get_trip_error)
  ultimately show ?thesis
    using parse_vehicle_positions_error [of cv e] parse_trip_updates_error [of ct e] by blast
qed

text \<open>A failed vehicle fetch at process start; a vehicle whose timestamp is \<open>2^63\<close> beside
  an undecodable trip-update body; a vehicle feed with no entity beside that body.\<close>

theorem decode_error_propagates_witness:
  "fst (get_live_bus_data (net_of RequestException (Response (Wire []))) 7 fresh_state) =
     stale (CACHE fresh_state) 7 \<and>
   get_live_bus_data (net_of (Response (Wire [vehicle_entity late_position])) (Response Malformed))
     7 fresh_state = (Raised OverflowError, logged fresh_state) \<and>
   get_live_bus_data (net_of (Response (Wire [])) (Response Malformed)) 7 fresh_state =
     (Raised DecodeError, logged fresh_state)"
proof -
  have h1: "refresh_fails (net_of RequestException (Response (Wire [])))"
    by (simp add: refresh_fails_def)
  have h2: "\<not> cache_valid (CACHE fresh_state) 7"
    by (simp add: fresh_state_def initial_cache_def cache_valid_def)
  have h3: "parse_vehicle_positions (Wire [vehicle_entity late_position]) = Inl OverflowError"
    by (simp add: parse_vehicle_positions_def vehicle_entity_def example_decoded)
  have h4: "parse_vehicle_positions (Wire []) = Inr []"
    by (simp add: parse_vehicle_positions_def)
  have h5: "parse_trip_updates Malformed = Inl DecodeError"
    by (simp add: parse_trip_updates_def)
  show ?thesis
    using decode_error_propagates [of fresh_state 7 "net_of RequestException (Response (Wire []))"]
      decode_error_propagates [of fresh_state 7
        "net_of (Response (Wire [vehicle_entity late_position])) (Response Malformed)"
        "Wire [vehicle_entity late_position]" Malformed OverflowError]
      decode_error_propagates [of fresh_state 7 "net_of (Response (Wire [])) (Response Malformed)"
        "Wire []" Malformed DecodeError "[]"]
      h1 h2 h3 h4 h5
    by simp
qed

text \<open>C6 as stated fails: an undecodable vehicle body is not turned into a cached
  answer, the decoder's error propagates.\<close>

theorem decode_error_counterexample:
  "fst (get_live_bus_data
     (net_of (Response Malformed) (Response (Wire [update_entity example_update]))) 7 fresh_state) =
   Raised DecodeError"
proof -
  have "get_live_bus_data
      (net_of (Response Malformed) (Response (Wire [update_entity example_update]))) 7 fresh_state =
      (Raised DecodeError, logged fresh_state)"
    by (rule get_vehicle_error [where cv = Malformed and ct = "Wire [update_entity example_update]"])
       (simp_all add: fresh_state_def initial_cache_def cache_valid_def parse_vehicle_positions_def)
  then show ?thesis by simp
qed

text \<open>C7 at a feed pair that decodes to one vehicle and no trip update: both feeds are
  fetched and decoded and the vehicle set is non-empty, yet \<open>merge\<close> raises \<open>KeyError\<close>
  and the cache is not updated.\<close>

theorem empty_updates_raise:
  "get_live_bus_data (net_of (Response (Wire [vehicle_entity example_position])) (Response (Wire [])))
     7 fresh_state = (Raised KeyError, logged fresh_state)"
proof -
  have v: "vehicles_of [vehicle_entity example_position] = Inr [example_vehicle]"
    by (simp add: vehicle_entity_def example_decoded)
  show ?thesis
    by (simp add: get_decoded [OF _ _ _ v] fresh_state_def initial_cache_def cache_valid_def
        live_data_of_def)
qed

section \<open>The left join\<close>

lemma left_merge_Nil [simp]: "left_merge kl kr [] right = []"
  by (simp add: left_merge_def)

lemma left_merge_Cons:
  "left_merge kl kr (l # ls) right =
     (if filter (\<lambda>r. kr r = kl l) right = [] then [(l, None)]
      else map (\<lambda>r. (l, Some r)) (filter (\<lambda>r. kr r = kl l) right)) @ left_merge kl kr ls right"
  by (simp add: left_merge_def Let_def)

lemma map_fst_left_merge:
  "map fst (left_merge kl kr left right) =
   concat (map (\<lambda>l. replicate (max 1 (length (filter (\<lambda>r. kr r = kl l) right))) l) left)"
  by (induction left)
     (auto simp: left_merge_Cons comp_def map_replicate_const max_def Suc_le_eq)

lemma distinct_key_matches:
  "distinct (map kr right) \<Longrightarrow> length (filter (\<lambda>r. kr r = k) right) \<le> 1"
proof (induction right)
  case Nil
  then show ?case by simp
next
  case (Cons x xs)
  then have "kr x = k \<Longrightarrow> filter (\<lambda>r. kr r = k) xs = []"
    by (auto simp: filter_empty_conv image_iff)
  with Cons show ?case by auto
qed

lemma map_fst_left_merge_distinct:
  assumes "distinct (map kr right)"
  shows "map fst (left_merge kl kr left right) = left"
proof -
  have "max 1 (length (filter (\<lambda>r. kr r = k) right)) = 1" for k
    using distinct_key_matches [OF assms, of k] by simp
  then have "replicate (max 1 (length (filter (\<lambda>r. kr r = kl l) right))) l = [l]" for l
    by simp
  then show ?thesis
    unfolding map_fst_left_merge by (induction left) simp_all
qed

lemma in_left_merge:
  "(l, m) \<in> set (left_merge kl kr left right) \<longleftrightarrow>
   l \<in> set left \<and>
   (case m of None \<Rightarrow> (\<forall>r\<in>set right. kr r \<noteq> kl l) | Some r \<Rightarrow> r \<in> set right \<and> kr r = kl l)"
  by (induction left)
     (auto simp: left_merge_Cons filter_empty_conv split: option.splits)

lemma truncate_live_row: "vehicle_row.truncate (live_row p) = fst p"
  by (simp add: live_row_def vehicle_row.defs)

lemma live_row_columns:
  "trip_id (live_row p) = trip_id (fst p)"
  "delay (live_row p) = (case snd p of None \<Rightarrow> 0 | Some u \<Rightarrow> u_delay u)"
  "status (live_row p) = (case snd p of None \<Rightarrow> ''On Time'' | Some u \<Rightarrow> u_status u)"
  by (simp_all add: live_row_def vehicle_row.defs)

text \<open>C1, amended: in a refresh that decodes at least one vehicle and at least one trip
  update, the merged snapshot is the left join by \<open>trip_id\<close>: every vehicle record appears,
  in order, once per trip update with its \<open>trip_id\<close> and once when there is none (so
  exactly once each when no \<open>trip_id\<close> occurs twice among the trip updates); a row with no
  matching trip update has delay 0 and status On Time, a matched row has the delay and
  status of a matching trip update. The vehicle records are those of the entities that
  have a vehicle, in order; decoding them succeeds when no vehicle timestamp is out of
  range. The defaults are those of the in-place \<open>fillna\<close> as pandas before 3.0 applies
  it.\<close>

theorem merge_left_join:
  assumes "\<not> cache_valid (CACHE s) now"
    and "net VEHICLE_POSITIONS_URL = Response (Wire fv)"
    and "net TRIP_UPDATES_URL = Response (Wire ft)"
    and "parse_vehicle_positions (Wire fv) = Inr vehicles" and "vehicles \<noteq> []"
    and "updates_of ft \<noteq> []"
  shows "\<exists>live. fst (get_live_bus_data net now s) = Returned (live, now) \<and>
     list_all2 (\<lambda>v r. vehicle_of v = Inr r) (List.map_filter vehicle fv) vehicles \<and>
     map vehicle_row.truncate live =
       concat (map (\<lambda>v. replicate (max 1 (length (filter (\<lambda>u. u_trip_id u = trip_id v) (updates_of ft)))) v)
         vehicles) \<and>
     (distinct (map u_trip_id (updates_of ft)) \<longrightarrow> map vehicle_row.truncate live = vehicles) \<and>
     (\<forall>r\<in>set live. trip_id r \<notin> u_trip_id ` set (updates_of ft) \<longrightarrow>
        delay r = 0 \<and> status r = ''On Time'') \<and>
     (\<forall>r\<in>set live. trip_id r \<in> u_trip_id ` set (updates_of ft) \<longrightarrow>
        (\<exists>u\<in>set (updates_of ft). u_trip_id u = trip_id r \<and> delay r = u_delay u \<and> status r = u_status u))"
proof -
  let ?vs = "vehicles"
  let ?us = "updates_of ft"
  let ?j = "left_merge trip_id u_trip_id ?vs ?us"
  have v: "vehicles_of fv = Inr vehicles"
    using assms(4) by (simp add: parse_vehicle_positions_def)
  have g: "fst (get_live_bus_data net now s) = Returned (map live_row ?j, now)"
    using assms v by (simp add: refresh_success)
  have l: "list_all2 (\<lambda>v r. vehicle_of v = Inr r) (List.map_filter vehicle fv) vehicles"
    using v by (rule vehicles_of_rows)
  have t: "map vehicle_row.truncate (map live_row ?j) = map fst ?j"
    by (simp add: truncate_live_row comp_def)
  have a: "map vehicle_row.truncate (map live_row ?j) =
      concat (map (\<lambda>v. replicate (max 1 (length (filter (\<lambda>u. u_trip_id u = trip_id v) ?us))) v) ?vs)"
    unfolding t by (rule map_fst_left_merge)
  have b: "distinct (map u_trip_id ?us) \<longrightarrow> map vehicle_row.truncate (map live_row ?j) = ?vs"
    unfolding t by (simp add: map_fst_left_merge_distinct)
  have c: "delay r = 0 \<and> status r = ''On Time''"
    if "r \<in> set (map live_row ?j)" "trip_id r \<notin> u_trip_id ` set ?us" for r
  proof -
    from that(1) obtain l m where lm: "(l, m) \<in> set ?j" "r = live_row (l, m)" by auto
    have "m = None"
    proof (cases m)
      case None
      then show ?thesis .
    next
      case (Some u)
      with lm(1) have "u \<in> set ?us" "u_trip_id u = trip_id l"
        by (simp_all add: in_left_merge)
      then have "trip_id l \<in> u_trip_id ` set ?us" by (metis imageI)
      with that(2) lm(2) show ?thesis by (simp add: live_row_columns)
    qed
    with lm show ?thesis by (simp add: live_row_columns)
  qed
  have d: "\<exists>u\<in>set ?us. u_trip_id u = trip_id r \<and> delay r = u_delay u \<and> status r = u_status u"
    if "r \<in> set (map live_row ?j)" "trip_id r \<in> u_trip_id ` set ?us" for r
  proof -
    from that(1) obtain l m where lm: "(l, m) \<in> set ?j" "r = live_row (l, m)" by auto
    from that(2) lm(2) obtain u' where u': "u' \<in> set ?us" "u_trip_id u' = trip_id l"
      by (auto simp: live_row_columns)
    have "m \<noteq> None"
    proof
      assume "m = None"
      with lm(1) have "\<forall>u\<in>set ?us. u_trip_id u \<noteq> trip_id l"
        by (simp add: in_left_merge)
      with u' show False by blast
    qed
    then obtain u where m: "m = Some u" by blast
    with lm(1) have "u \<in> set ?us" "u_trip_id u = trip_id l"
      by (simp_all add: in_left_merge)
    with lm(2) m show ?thesis by (auto simp: live_row_columns)
  qed
  show ?thesis
    using g l a b c d by blast
qed

text \<open>Two vehicles, one of them with a trip update and the other with a timestamp.\<close>

theorem merge_left_join_witness:
  "\<exists>live. fst (get_live_bus_data
       (net_of (Response (Wire [vehicle_entity example_position, vehicle_entity other_position]))
          (Response (Wire [update_entity example_update]))) 7 fresh_state) = Returned (live, 7) \<and>
     map vehicle_row.truncate live = [example_vehicle, other_vehicle] \<and>
     map delay live = [400, 0] \<and> map status live = [''Delayed'', ''On Time'']"
proof -
  let ?net = "net_of (Response (Wire [vehicle_entity example_position, vehicle_entity other_position]))
          (Response (Wire [update_entity example_update]))"
  have h1: "\<not> cache_valid (CACHE fresh_state) 7"
    by (simp add: fresh_state_def initial_cache_def cache_valid_def)
  have h2: "?net VEHICLE_POSITIONS_URL =
      Response (Wire [vehicle_entity example_position, vehicle_entity other_position])"
    by simp
  have h3: "?net TRIP_UPDATES_URL = Response (Wire [update_entity example_update])"
    by simp
  have h4: "parse_vehicle_positions (Wire [vehicle_entity example_position, vehicle_entity other_position]) =
      Inr [example_vehicle, other_vehicle]"
    by (simp add: parse_vehicle_positions_def vehicle_entity_def example_decoded)
  have h5: "[example_vehicle, other_vehicle] \<noteq> []"
    by simp
  have u: "updates_of [update_entity example_update] =
      [\<lparr>u_trip_id = ''T1'', u_delay = 400, u_status = ''Delayed''\<rparr>]"
    by (simp add: update_entity_def example_update_def classify_def)
  have h6: "updates_of [update_entity example_update] \<noteq> []"
    unfolding u by simp
  have i: "trip_id example_vehicle = ''T1''" "trip_id other_vehicle = ''T2''"
    by (simp_all add: example_vehicle_def other_vehicle_def)
  from merge_left_join [OF h1 h2 h3 h4 h5 h6] obtain live where
    r: "fst (get_live_bus_data ?net 7 fresh_state) = Returned (live, 7)"
    and m: "map vehicle_row.truncate live = [example_vehicle, other_vehicle]"
    and n: "\<forall>r\<in>set live. trip_id r \<notin> u_trip_id ` set (updates_of [update_entity example_update]) \<longrightarrow>
        delay r = 0 \<and> status r = ''On Time''"
    and y: "\<forall>r\<in>set live. trip_id r \<in> u_trip_id ` set (updates_of [update_entity example_update]) \<longrightarrow>
        (\<exists>u\<in>set (updates_of [update_entity example_update]).
           u_trip_id u = trip_id r \<and> delay r = u_delay u \<and> status r = u_status u)"
    unfolding u by auto
  from m obtain a b where ab: "live = [a, b]" "vehicle_row.truncate a = example_vehicle"
    "vehicle_row.truncate b = other_vehicle"
    by (auto simp: map_eq_Cons_conv)
  have tr: "trip_id (vehicle_row.truncate x) = trip_id x" for x :: row
    by (simp add: vehicle_row.defs)
  have k: "trip_id a = ''T1''" "trip_id b = ''T2''"
    using tr [of a] tr [of b] ab(2,3) i by simp_all
  from y ab k have "delay a = 400 \<and> status a = ''Delayed''"
    unfolding u by simp
  moreover from n ab k have "delay b = 0 \<and> status b = ''On Time''"
    unfolding u by simp
  ultimately show ?thesis
    using r m ab by auto
qed

text \<open>C1 as stated fails: with two trip updates for the trip of the one vehicle decoded,
  that vehicle appears twice in the merged snapshot.\<close>

theorem merge_duplicates_counterexample:
  "map vehicle_id (data (CACHE (snd (get_live_bus_data
       (net_of (Response (Wire [vehicle_entity example_position]))
          (Response (Wire [update_entity example_update,
             update_entity (example_update\<lparr>tu_stop_time_update := [0]\<rparr>)]))) 7 fresh_state)))) =
   [''B1'', ''B1'']"
proof -
  have v: "vehicles_of [vehicle_entity example_position] = Inr [example_vehicle]"
    by (simp add: vehicle_entity_def example_decoded)
  show ?thesis
    by (simp add: refresh_success [OF _ _ _ v] fresh_state_def initial_cache_def cache_valid_def
        update_entity_def example_update_def example_vehicle_def left_merge_def live_row_def
        vehicle_row.defs)
qed

section \<open>Sorting distinct values\<close>

lemma sort_unique: "sort (unique xs) = sorted_list_of_set (set xs)"
proof -
  have "sorted (sort (unique xs))" "distinct (sort (unique xs))" "set (sort (unique xs)) = set xs"
    by (simp_all add: unique_def)
  then show ?thesis
    by (metis sorted_list_of_set.idem_if_sorted_distinct)
qed

section \<open>Filters and options\<close>

text \<open>C10: the region, route and vehicle option lists are the sentinel All followed by
  the sorted distinct values of their datasets (the whole snapshot, the region-restricted
  rows, the status-restricted rows); the status options are the sorted distinct statuses
  of the route-restricted rows, with no sentinel. Each dataset is the one before it
  restricted by the next selection, where All selects every row.\<close>

theorem option_lists:
  "ctx_region_options (page master_df t previous_df a) =
     ''All'' # sorted_list_of_set (region ` set master_df) \<and>
   ctx_route_options (page master_df t previous_df a) =
     ''All'' # sorted_list_of_set (route_name ` set (df_for_route_options master_df a)) \<and>
   ctx_vehicle_options (page master_df t previous_df a) =
     ''All'' # sorted_list_of_set (vehicle_id ` set (df_for_vehicle_options master_df a)) \<and>
   ctx_status_options (page master_df t previous_df a) =
     sorted_list_of_set (status ` set (df_for_status_options master_df a)) \<and>
   set (df_for_route_options master_df a) =
     {r \<in> set master_df. selected_region a = ''All'' \<or> region r = selected_region a} \<and>
   set (df_for_status_options master_df a) =
     {r \<in> set (df_for_route_options master_df a).
        selected_route a = ''All'' \<or> route_name r = selected_route a} \<and>
   set (df_for_vehicle_options master_df a) =
     {r \<in> set (df_for_status_options master_df a). status r \<in> set (selected_status master_df a)}"
proof -
  have "set (df_for_route_options master_df a) =
      {r \<in> set master_df. selected_region a = ''All'' \<or> region r = selected_region a}"
    by (auto simp: df_for_route_options_def)
  moreover have "set (df_for_status_options master_df a) =
      {r \<in> set (df_for_route_options master_df a).
         selected_route a = ''All'' \<or> route_name r = selected_route a}"
    by (auto simp: df_for_status_options_def)
  moreover have "set (df_for_vehicle_options master_df a) =
      {r \<in> set (df_for_status_options master_df a). status r \<in> set (selected_status master_df a)}"
    by (simp add: df_for_vehicle_options_def)
  ultimately show ?thesis
    by (simp add: page_def region_options_def route_options_def vehicle_options_def
        status_options_def sort_unique)
qed

lemma set_unique [simp]: "set (unique xs) = set xs"
  by (simp add: unique_def)

lemma set_df_for_status_options:
  "set (df_for_status_options master_df a) =
   {r \<in> set master_df. (selected_region a = ''All'' \<or> region r = selected_region a) \<and>
      (selected_route a = ''All'' \<or> route_name r = selected_route a)}"
  by (auto simp: df_for_status_options_def df_for_route_options_def)

lemma example_row_columns:
  "region example_row = ''Gold Coast''" "route_name example_row = ''700''"
  "status example_row = ''On Time''" "vehicle_id example_row = ''B1''"
  "lat example_row = - 28" "lon example_row = 153.4"
  by (simp_all add: example_row_def live_row_def example_vehicle_def
      categorize_region_def vehicle_row.defs)

text \<open>C8: when the request carries no status value, the selected statuses are the status
  options, that is exactly the statuses present among the rows of the snapshot that pass
  the region and route selections (All selects every row), and the status selection
  removes no row.\<close>

theorem default_status_selection:
  assumes "arg_status a = []"
  shows "sel_status (ctx_selected_filters (page master_df t previous_df a)) = status_options master_df a \<and>
     set (selected_status master_df a) =
       {status r | r. r \<in> set master_df \<and>
          (selected_region a = ''All'' \<or> region r = selected_region a) \<and>
          (selected_route a = ''All'' \<or> route_name r = selected_route a)} \<and>
     df_for_vehicle_options master_df a = df_for_status_options master_df a"
proof -
  have s: "selected_status master_df a = status_options master_df a"
    using assms by (simp add: selected_status_def)
  have o: "set (status_options master_df a) = status ` set (df_for_status_options master_df a)"
    by (simp add: status_options_def)
  have "df_for_vehicle_options master_df a = df_for_status_options master_df a"
    unfolding df_for_vehicle_options_def s o by (rule filter_True) simp
  moreover have "set (selected_status master_df a) =
       {status r | r. r \<in> set master_df \<and>
          (selected_region a = ''All'' \<or> region r = selected_region a) \<and>
          (selected_route a = ''All'' \<or> route_name r = selected_route a)}"
    unfolding s o set_df_for_status_options by auto
  ultimately show ?thesis
    by (simp add: page_def s)
qed

text \<open>A request with no parameters on a one-row snapshot of route 700 on the Gold Coast.\<close>

theorem default_status_selection_witness:
  "sel_status (ctx_selected_filters (page [example_row] 7 [] default_args)) = [''On Time''] \<and>
   df_for_vehicle_options [example_row] default_args = [example_row]"
proof -
  have h: "arg_status default_args = []" by (simp add: default_args_def)
  have r: "selected_region default_args = ''Gold Coast''" "selected_route default_args = ''700''"
    by (simp_all add: selected_region_def selected_route_def default_args_def)
  have d: "df_for_status_options [example_row] default_args = [example_row]"
    by (simp add: df_for_status_options_def df_for_route_options_def r example_row_columns)
  show ?thesis
    using default_status_selection [OF h, of "[example_row]" 7 "[]"]
    by (simp add: d status_options_def unique_def example_row_columns)
qed

section \<open>Movement segments\<close>

lemma ant_paths_concat:
  "ant_paths (FoliumMap (concat (map row_items rows))) =
   concat (map (\<lambda>r. ant_paths (FoliumMap (row_items r))) rows)"
  by (induction rows) simp_all

lemma ant_paths_folium:
  "ant_paths (folium rows) = concat (map (\<lambda>r. ant_paths (FoliumMap (row_items r))) rows)"
  by (simp add: folium_def ant_paths_concat del: ant_paths.simps(2))

lemma with_previous_Cons:
  "with_previous (r # rs) previous_df = with_previous [r] previous_df @ with_previous rs previous_df"
  by (simp add: with_previous_def left_merge_Cons)

lemma ant_paths_append:
  "ant_paths (folium (xs @ ys)) = ant_paths (folium xs) @ ant_paths (folium ys)"
  by (simp add: ant_paths_folium)

lemma ant_paths_rows:
  "ant_paths (folium (with_previous filtered previous_df)) =
   concat (map (\<lambda>r. ant_paths (folium (with_previous [r] previous_df))) filtered)"
proof (induction filtered)
  case Nil
  then show ?case by (simp add: with_previous_def folium_def)
next
  case (Cons r rs)
  have "ant_paths (folium (with_previous (r # rs) previous_df)) =
      ant_paths (folium (with_previous [r] previous_df)) @
      ant_paths (folium (with_previous rs previous_df))"
    by (subst with_previous_Cons) (rule ant_paths_append)
  with Cons show ?case by simp
qed

lemma joined_columns:
  "lat (row.extend r \<lparr>lat_prev = a, lon_prev = b\<rparr>) = lat r"
  "lon (row.extend r \<lparr>lat_prev = a, lon_prev = b\<rparr>) = lon r"
  "lat_prev (row.extend r \<lparr>lat_prev = a, lon_prev = b\<rparr>) = a"
  "lon_prev (row.extend r \<lparr>lat_prev = a, lon_prev = b\<rparr>) = b"
  by (simp_all add: row.defs)

lemma row_paths_one:
  assumes "filter (\<lambda>p. vehicle_id p = vehicle_id r) previous_df = [p]"
  shows "ant_paths (folium (with_previous [r] previous_df)) =
     (if lat r = lat p \<and> lon r = lon p then [] else [[(lat p, lon p), (lat r, lon r)]])"
proof -
  from assms have "previous_df \<noteq> []" by auto
  then have "with_previous [r] previous_df =
      [row.extend r \<lparr>lat_prev = Some (lat p), lon_prev = Some (lon p)\<rparr>]"
    using assms by (simp add: with_previous_def left_merge_Cons)
  then show ?thesis
    by (auto simp: ant_paths_folium row_items_def joined_columns)
qed

lemma row_paths_none:
  assumes "filter (\<lambda>p. vehicle_id p = vehicle_id r) previous_df = []"
  shows "ant_paths (folium (with_previous [r] previous_df)) = []"
proof -
  have "with_previous [r] previous_df = [row.extend r \<lparr>lat_prev = None, lon_prev = None\<rparr>]"
    using assms by (simp add: with_previous_def left_merge_Cons)
  then show ?thesis
    by (simp add: ant_paths_folium row_items_def joined_columns)
qed

text \<open>C9, amended: the segments of the map are those of its rows taken one at a time. A
  row whose \<open>vehicle_id\<close> occurs exactly once in the previous snapshot emits no segment
  when the coordinates are identical and exactly one segment, from the previous to the
  current coordinates, when they differ; a row whose \<open>vehicle_id\<close> does not occur emits
  none. With no previous snapshot every row gets empty previous coordinates and no
  segment is emitted.\<close>

theorem movement_segments:
  "ant_paths (folium (with_previous filtered previous_df)) =
     concat (map (\<lambda>r. ant_paths (folium (with_previous [r] previous_df))) filtered) \<and>
   (filter (\<lambda>p. vehicle_id p = vehicle_id r) previous_df = [p] \<longrightarrow>
      ant_paths (folium (with_previous [r] previous_df)) =
        (if lat r = lat p \<and> lon r = lon p then [] else [[(lat p, lon p), (lat r, lon r)]])) \<and>
   (filter (\<lambda>p. vehicle_id p = vehicle_id r) previous_df = [] \<longrightarrow>
      ant_paths (folium (with_previous [r] previous_df)) = []) \<and>
   with_previous filtered [] = map (\<lambda>r. row.extend r \<lparr>lat_prev = None, lon_prev = None\<rparr>) filtered \<and>
   ant_paths (folium (with_previous filtered [])) = []"
proof -
  have "ant_paths (folium (with_previous filtered [])) = []"
    by (subst ant_paths_rows) (simp add: row_paths_none)
  then show ?thesis
    using ant_paths_rows [of filtered previous_df] row_paths_one [of r previous_df p]
      row_paths_none [of r previous_df]
    by (simp add: with_previous_def)
qed

text \<open>A vehicle that moved, one that did not, and one that was not seen before.\<close>

theorem movement_segments_witness:
  "ant_paths (folium (with_previous [example_row] [example_row\<lparr>lat := - 28.1\<rparr>])) =
     [[(- 28.1, 153.4), (- 28, 153.4)]] \<and>
   ant_paths (folium (with_previous [example_row] [example_row])) = [] \<and>
   ant_paths (folium (with_previous [example_row] [example_row\<lparr>vehicle_id := ''B7''\<rparr>])) = []"
proof -
  have h1: "filter (\<lambda>p. vehicle_id p = vehicle_id example_row) [example_row\<lparr>lat := - 28.1\<rparr>] =
      [example_row\<lparr>lat := - 28.1\<rparr>]"
    by simp
  have h2: "filter (\<lambda>p. vehicle_id p = vehicle_id example_row) [example_row] = [example_row]"
    by simp
  have h3: "filter (\<lambda>p. vehicle_id p = vehicle_id example_row) [example_row\<lparr>vehicle_id := ''B7''\<rparr>] = []"
    by (simp add: example_row_columns)
  show ?thesis
    using movement_segments [of "[example_row]" "[example_row\<lparr>lat := - 28.1\<rparr>]" example_row
        "example_row\<lparr>lat := - 28.1\<rparr>"]
      movement_segments [of "[example_row]" "[example_row]" example_row example_row]
      movement_segments [of "[example_row]" "[example_row\<lparr>vehicle_id := ''B7''\<rparr>]" example_row]
      h1 h2 h3
    by (simp add: example_row_columns)
qed

text \<open>C9 as stated fails: the join is a left merge, so a vehicle that the previous
  snapshot lists twice yields two joined rows and two segments, not one.\<close>

theorem movement_duplicates_counterexample:
  "ant_paths (folium (with_previous [example_row]
      [example_row\<lparr>lat := - 28.1\<rparr>, example_row\<lparr>lat := - 28.1\<rparr>])) =
   [[(- 28.1, 153.4), (- 28, 153.4)], [(- 28.1, 153.4), (- 28, 153.4)]]"
  by (simp add: ant_paths_folium with_previous_def left_merge_Cons row_items_def joined_columns
      example_row_columns)

end
